theory Spec2Isabelle
  imports Complex_Main
begin

section \<open>Python values\<close>

text \<open>
  The answers, the cached analysis texts and the decoded JSON of a reply are dynamically
  typed Python objects. A Python float is read as a real number; a JSON object is an
  association list looked up with \<open>map_of\<close>.
\<close>

datatype pyval =
    PNone
  | PBool bool
  | PInt int
  | PFloat real
  | PStr string
  | PList "pyval list"
  | PDict "(string \<times> pyval) list"

datatype exn =
    TypeError
  | KeyError
  | IndexError
  | ValueError
  | OSError
  | StreamlitAPIException
  | UnidentifiedImageError
  | RequestException string

text \<open>Truth value of an object, as \<open>if x:\<close> and \<open>x or y\<close> read it.\<close>

fun truthy :: "pyval \<Rightarrow> bool" where
  "truthy PNone = False"
| "truthy (PBool b) = b"
| "truthy (PInt i) = (i \<noteq> 0)"
| "truthy (PFloat r) = (r \<noteq> 0)"
| "truthy (PStr s) = (s \<noteq> [])"
| "truthy (PList xs) = (xs \<noteq> [])"
| "truthy (PDict kvs) = (kvs \<noteq> [])"


definition startswith :: "string \<Rightarrow> string \<Rightarrow> bool" where
  "startswith s p = (take (length p) s = p)"

fun substring :: "string \<Rightarrow> string \<Rightarrow> bool" where
  "substring p [] = (p = [])"
| "substring p (c # cs) = (startswith (c # cs) p \<or> substring p cs)"

section \<open>Session state\<close>

text \<open>
  \<open>st.session_state\<close> holds the wizard cursor, the nested answer dictionary
  (category, then question) and the two cached analysis texts, \<open>None\<close> while absent.
  Beside the session the model keeps what the script run touches outside it: the files it
  writes, the log of external analysis calls, and the elements put on the page.
\<close>

type_synonym answers = "string \<rightharpoonup> (string \<rightharpoonup> pyval)"

datatype api_call = FullAnalysis answers | InvoiceAnalysis string

datatype ui =
    Choice string "string list" nat
  | NumberInput string pyval
  | Slider string int int int
  | Checkbox string bool
  | TextField string pyval
  | Multiselect string "string list" "pyval list"
  | FileUploader string "string list"
  | Image string
  | Button string
  | Info string
  | Warning string
  | Success string
  | Error string
  | Markdown pyval

record app =
  current_step :: int
  user_responses :: answers
  food_order_analysis :: pyval
  final_result :: pyval
  files :: "string \<rightharpoonup> string"
  calls :: "api_call list"
  screen :: "ui list"

definition get_response :: "answers \<Rightarrow> string \<Rightarrow> string \<Rightarrow> pyval \<Rightarrow> pyval" where
  "get_response rs category question dflt =
     (case rs category of
        None \<Rightarrow> dflt
      | Some d \<Rightarrow> (case d question of None \<Rightarrow> dflt | Some v \<Rightarrow> v))"

definition store_response :: "string \<Rightarrow> string \<Rightarrow> pyval \<Rightarrow> answers \<Rightarrow> answers" where
  "store_response category question response rs =
     (let rs' = (if rs category = None then rs(category \<mapsto> Map.empty) else rs)
      in rs'(category \<mapsto> (the (rs' category))(question \<mapsto> response)))"

text \<open>What the answer dictionary holds for a category and question, if anything.\<close>

definition stored :: "answers \<Rightarrow> string \<Rightarrow> string \<Rightarrow> pyval option" where
  "stored rs category question =
     (case rs category of None \<Rightarrow> None | Some d \<Rightarrow> d question)"

definition next_step :: "app \<Rightarrow> app" where
  "next_step s = s\<lparr>current_step := current_step s + 1\<rparr>"

definition prev_step :: "app \<Rightarrow> app" where
  "prev_step s = (if current_step s > 1 then s\<lparr>current_step := current_step s - 1\<rparr> else s)"

text \<open>The session as the initialisation at the top of the script leaves it.\<close>

definition initial_session :: "app \<Rightarrow> app" where
  "initial_session s =
     s\<lparr>current_step := 1, user_responses := Map.empty,
       food_order_analysis := PNone, final_result := PNone\<rparr>"

datatype nav = Advance | Retreat

fun navigate :: "nav \<Rightarrow> app \<Rightarrow> app" where
  "navigate Advance s = next_step s"
| "navigate Retreat s = prev_step s"

fun navigate_all :: "nav list \<Rightarrow> app \<Rightarrow> app" where
  "navigate_all [] s = s"
| "navigate_all (n # ns) s = navigate_all ns (navigate n s)"

section \<open>The external analysis calls\<close>

text \<open>
  What lies outside the repository is a parameter: the outcome of the n-th request sent to
  the model endpoint, \<open>json.dumps\<close> with \<open>indent=2\<close>, \<open>str\<close> of an exception and of an
  object, base64 encoding, Python's parsers of numeric text, whether bytes decode as an
  image, and whether a path can be opened for writing.
\<close>

datatype http_outcome =
    Raises exn
  | Response int string "pyval option"

record env =
  api_reply :: "nat \<Rightarrow> http_outcome"
  json_dumps :: "pyval \<Rightarrow> string"
  str_exn :: "exn \<Rightarrow> string"
  to_str :: "pyval \<Rightarrow> string"
  b64encode :: "string \<Rightarrow> string"
  parse_int :: "string \<Rightarrow> int option"
  parse_float :: "string \<Rightarrow> real option"
  is_image :: "string \<Rightarrow> bool"
  writable :: "string \<Rightarrow> bool"

definition and_then :: "exn + 'a \<Rightarrow> ('a \<Rightarrow> exn + 'b) \<Rightarrow> exn + 'b" where
  "and_then r f = (case r of Inl e \<Rightarrow> Inl e | Inr v \<Rightarrow> f v)"

text \<open>\<open>key in x\<close>, \<open>len(x)\<close>, \<open>x[key]\<close> and \<open>x[0]\<close> on a decoded JSON value.\<close>

fun py_contains :: "string \<Rightarrow> pyval \<Rightarrow> exn + bool" where
  "py_contains k (PDict kvs) = Inr (k \<in> set (map fst kvs))"
| "py_contains k (PList xs) = Inr (PStr k \<in> set xs)"
| "py_contains k (PStr s) = Inr (substring k s)"
| "py_contains k v = Inl TypeError"

fun py_len :: "pyval \<Rightarrow> exn + nat" where
  "py_len (PDict kvs) = Inr (length kvs)"
| "py_len (PList xs) = Inr (length xs)"
| "py_len (PStr s) = Inr (length s)"
| "py_len v = Inl TypeError"

fun py_item :: "pyval \<Rightarrow> string \<Rightarrow> exn + pyval" where
  "py_item (PDict kvs) k = (case map_of kvs k of None \<Rightarrow> Inl KeyError | Some v \<Rightarrow> Inr v)"
| "py_item v k = Inl TypeError"

fun py_item0 :: "pyval \<Rightarrow> exn + pyval" where
  "py_item0 (PList []) = Inl IndexError"
| "py_item0 (PList (v # vs)) = Inr v"
| "py_item0 (PStr []) = Inl IndexError"
| "py_item0 (PStr (c # cs)) = Inr (PStr [c])"
| "py_item0 (PDict kvs) = Inl KeyError"
| "py_item0 v = Inl TypeError"

text \<open>Decimal text of an integer, as an f-string prints \<open>response.status_code\<close>.\<close>

definition digit :: "nat \<Rightarrow> char" where
  "digit n = ''0123456789'' ! n"

fun str_nat :: "nat \<Rightarrow> string" where
  "str_nat n = (if n < 10 then [digit n] else str_nat (n div 10) @ [digit (n mod 10)])"

declare str_nat.simps [simp del]

definition str_int :: "int \<Rightarrow> string" where
  "str_int i = (if i < 0 then CHR ''-'' # str_nat (nat (- i)) else str_nat (nat i))"

text \<open>
  The chain of envelope tests of \<open>analyze_with_gemma\<close> and \<open>analyze_food_invoice\<close> (the two
  functions spell it alike): the content found, \<open>None\<close> when the chain falls through to the
  raw JSON, or the exception a test raised.
\<close>

definition first_choice :: "pyval \<Rightarrow> exn + pyval" where
  "first_choice response_json = and_then (py_item response_json ''choices'') py_item0"

definition choice_content :: "pyval \<Rightarrow> exn + pyval option" where
  "choice_content response_json =
     and_then (and_then (first_choice response_json) (py_contains ''message'')) (\<lambda>has_message.
     and_then (if has_message
               then and_then (and_then (first_choice response_json) (\<lambda>c. py_item c ''message''))
                      (py_contains ''content'')
               else Inr False) (\<lambda>has_content.
     if has_content then
       and_then (and_then (and_then (first_choice response_json) (\<lambda>c. py_item c ''message''))
                   (\<lambda>m. py_item m ''content'')) (\<lambda>v. Inr (Some v))
     else
       and_then (and_then (first_choice response_json) (py_contains ''text'')) (\<lambda>has_text.
       if has_text then
         and_then (and_then (first_choice response_json) (\<lambda>c. py_item c ''text''))
           (\<lambda>v. Inr (Some v))
       else Inr None)))"

definition top_level_content :: "pyval \<Rightarrow> exn + pyval option" where
  "top_level_content response_json =
     and_then (py_contains ''response'' response_json) (\<lambda>has_response.
     if has_response then and_then (py_item response_json ''response'') (\<lambda>v. Inr (Some v))
     else
     and_then (py_contains ''result'' response_json) (\<lambda>has_result.
     if has_result then and_then (py_item response_json ''result'') (\<lambda>v. Inr (Some v))
     else
     and_then (py_contains ''output'' response_json) (\<lambda>has_output.
     if has_output then and_then (py_item response_json ''output'') (\<lambda>v. Inr (Some v))
     else
     and_then (py_contains ''text'' response_json) (\<lambda>has_text.
     if has_text then and_then (py_item response_json ''text'') (\<lambda>v. Inr (Some v))
     else Inr None))))"

definition envelope_content :: "pyval \<Rightarrow> exn + pyval option" where
  "envelope_content response_json =
     and_then (py_contains ''choices'' response_json) (\<lambda>has_choices.
     and_then (if has_choices
               then and_then (and_then (py_item response_json ''choices'') py_len)
                      (\<lambda>n. Inr (n > 0))
               else Inr False) (\<lambda>nonempty.
     if nonempty then choice_content response_json else top_level_content response_json))"

text \<open>
  The body of the \<open>try\<close> block after the request, with both handlers: \<open>JSONDecodeError\<close>
  (the decoded JSON is absent) gives the body text, every other exception gives the
  "An error occurred" text.
\<close>

definition read_reply :: "env \<Rightarrow> http_outcome \<Rightarrow> pyval" where
  "read_reply E outcome =
     (case outcome of
        Raises e \<Rightarrow> PStr (''An error occurred: '' @ str_exn E e)
      | Response status_code text decoded \<Rightarrow>
          if status_code = 200 then
            (case decoded of
               None \<Rightarrow> PStr text
             | Some response_json \<Rightarrow>
                 (case envelope_content response_json of
                    Inl e \<Rightarrow> PStr (''An error occurred: '' @ str_exn E e)
                  | Inr (Some v) \<Rightarrow> v
                  | Inr None \<Rightarrow> PStr (json_dumps E response_json)))
          else PStr (''Error '' @ str_int status_code
                     @ '': The API request failed. Please try again later.''))"

text \<open>Each call is logged with what it sends; the reply is the environment's for that call.\<close>

definition analyze_with_gemma :: "env \<Rightarrow> answers \<Rightarrow> app \<Rightarrow> pyval \<times> app" where
  "analyze_with_gemma E rs s =
     (read_reply E (api_reply E (length (calls s))),
      s\<lparr>calls := calls s @ [FullAnalysis rs]\<rparr>)"

definition analyze_food_invoice :: "env \<Rightarrow> string \<Rightarrow> app \<Rightarrow> pyval \<times> app" where
  "analyze_food_invoice E image_data s =
     (read_reply E (api_reply E (length (calls s))),
      s\<lparr>calls := calls s @ [InvoiceAnalysis image_data]\<rparr>)"

section \<open>Script runs and widgets\<close>

text \<open>
  One run of the script reads what the user did since the last run: the value entered in a
  widget (by widget key), the button clicked (one click starts one run), and the file held
  by the uploader. A run either completes or stops at an exception; the session keeps the
  changes made up to that point.
\<close>

record upload =
  file_type :: string
  buffer :: string

record input =
  entered :: "string \<rightharpoonup> pyval"
  clicked :: "string option"
  uploaded :: "upload option"

definition no_input :: input where
  "no_input = \<lparr>entered = Map.empty, clicked = None, uploaded = None\<rparr>"

datatype 'a outcome = Done 'a app | Raised exn app

fun state_of :: "'a outcome \<Rightarrow> app" where
  "state_of (Done v s) = s"
| "state_of (Raised e s) = s"

fun completed :: "'a outcome \<Rightarrow> bool" where
  "completed (Done v s) = True"
| "completed (Raised e s) = False"

definition then_run :: "(app \<Rightarrow> 'a outcome) \<Rightarrow> ('a \<Rightarrow> app \<Rightarrow> 'b outcome) \<Rightarrow> app \<Rightarrow> 'b outcome" where
  "then_run m f s = (case m s of Done v s' \<Rightarrow> f v s' | Raised e s' \<Rightarrow> Raised e s')"

definition emit :: "ui \<Rightarrow> app \<Rightarrow> unit outcome" where
  "emit w s = Done () (s\<lparr>screen := screen s @ [w]\<rparr>)"

definition only_if :: "bool \<Rightarrow> (app \<Rightarrow> unit outcome) \<Rightarrow> app \<Rightarrow> unit outcome" where
  "only_if c m s = (if c then m s else Done () s)"

definition ensure_category :: "string \<Rightarrow> answers \<Rightarrow> answers" where
  "ensure_category category rs = (if rs category = None then rs(category \<mapsto> Map.empty) else rs)"

definition init_category :: "string \<Rightarrow> app \<Rightarrow> unit outcome" where
  "init_category category s =
     Done () (s\<lparr>user_responses := ensure_category category (user_responses s)\<rparr>)"

definition do_store :: "string \<Rightarrow> string \<Rightarrow> pyval \<Rightarrow> app \<Rightarrow> unit outcome" where
  "do_store category question response s =
     Done () (s\<lparr>user_responses := store_response category question response (user_responses s)\<rparr>)"

text \<open>\<open>int(x)\<close> and \<open>float(x)\<close>; \<open>int\<close> of a float cuts towards zero.\<close>

fun py_int :: "env \<Rightarrow> pyval \<Rightarrow> exn + int" where
  "py_int E (PInt i) = Inr i"
| "py_int E (PBool b) = Inr (if b then 1 else 0)"
| "py_int E (PFloat r) = Inr (if 0 \<le> r then \<lfloor>r\<rfloor> else \<lceil>r\<rceil>)"
| "py_int E (PStr t) = (case parse_int E t of None \<Rightarrow> Inl ValueError | Some i \<Rightarrow> Inr i)"
| "py_int E v = Inl TypeError"

fun py_float :: "env \<Rightarrow> pyval \<Rightarrow> exn + real" where
  "py_float E (PFloat r) = Inr r"
| "py_float E (PInt i) = Inr (of_int i)"
| "py_float E (PBool b) = Inr (if b then 1 else 0)"
| "py_float E (PStr t) = (case parse_float E t of None \<Rightarrow> Inl ValueError | Some r \<Rightarrow> Inr r)"
| "py_float E v = Inl TypeError"

definition convert :: "exn + 'a \<Rightarrow> app \<Rightarrow> 'a outcome" where
  "convert r s = (case r of Inl e \<Rightarrow> Raised e s | Inr v \<Rightarrow> Done v s)"

text \<open>\<open>options.index(x)\<close>; \<open>None\<close> stands for the \<open>ValueError\<close> the callers catch.\<close>

fun index_of :: "string list \<Rightarrow> pyval \<Rightarrow> nat option" where
  "index_of [] v = None"
| "index_of (x # xs) v = (if PStr x = v then Some 0 else map_option Suc (index_of xs v))"

text \<open>The index to preselect: that of the value, or the fallback of the \<open>except\<close> branch.\<close>

definition default_index :: "string list \<Rightarrow> nat \<Rightarrow> pyval \<Rightarrow> nat" where
  "default_index options fallback dflt =
     (case index_of options dflt of None \<Rightarrow> fallback | Some i \<Rightarrow> i)"

text \<open>
  The Streamlit widgets. Each puts itself on the page with its pre-filled value and returns
  the user's entry when there is one in the widget's value space, and the pre-filled value
  otherwise. A number input raises \<open>StreamlitAPIException\<close> for a pre-fill below its
  minimum or beyond what JavaScript represents exactly; a slider widens its bounds to hold
  the pre-fill; a multiselect takes a list of options (an option may repeat) or a single
  option and raises for anything else but \<open>None\<close>; a checkbox pre-fill is cast to \<open>bool\<close>;
  a text pre-fill is cast to \<open>str\<close> unless it is \<open>None\<close>, which the widget returns as it is.
  Titles, headers, labels, help texts and the column layout are not modelled.
\<close>

definition selectbox :: "string \<Rightarrow> string list \<Rightarrow> nat \<Rightarrow> input \<Rightarrow> app \<Rightarrow> string outcome" where
  "selectbox key options index inp s =
     Done (case entered inp key of
             Some (PStr x) \<Rightarrow> if x \<in> set options then x else options ! index
           | _ \<Rightarrow> options ! index)
          (s\<lparr>screen := screen s @ [Choice key options index]\<rparr>)"

definition js_max_int :: int where
  "js_max_int = 2 ^ 53 - 1"

definition js_max_float :: real where
  "js_max_float = (2 ^ 53 - 1) * 2 ^ 971"

definition number_input :: "string \<Rightarrow> int \<Rightarrow> int \<Rightarrow> input \<Rightarrow> app \<Rightarrow> int outcome" where
  "number_input key min_value val inp s =
     (if val < min_value \<or> js_max_int < val then Raised StreamlitAPIException s
      else Done (case entered inp key of
                   Some (PInt i) \<Rightarrow> if min_value \<le> i \<and> i \<le> js_max_int then i else val
                 | _ \<Rightarrow> val)
                (s\<lparr>screen := screen s @ [NumberInput key (PInt val)]\<rparr>))"

definition number_input_float :: "string \<Rightarrow> real \<Rightarrow> real \<Rightarrow> input \<Rightarrow> app \<Rightarrow> real outcome" where
  "number_input_float key min_value val inp s =
     (if val < min_value \<or> js_max_float < val then Raised StreamlitAPIException s
      else Done (case entered inp key of
                   Some (PFloat r) \<Rightarrow> if min_value \<le> r \<and> r \<le> js_max_float then r else val
                 | _ \<Rightarrow> val)
                (s\<lparr>screen := screen s @ [NumberInput key (PFloat val)]\<rparr>))"

definition slider :: "string \<Rightarrow> int \<Rightarrow> int \<Rightarrow> int \<Rightarrow> input \<Rightarrow> app \<Rightarrow> int outcome" where
  "slider key lo hi val inp s =
     (if val < - js_max_int \<or> js_max_int < val then Raised StreamlitAPIException s
      else Done (case entered inp key of
                   Some (PInt i) \<Rightarrow> if min lo val \<le> i \<and> i \<le> max hi val then i else val
                 | _ \<Rightarrow> val)
                (s\<lparr>screen := screen s @ [Slider key (min lo val) (max hi val) val]\<rparr>))"

definition checkbox :: "string \<Rightarrow> pyval \<Rightarrow> input \<Rightarrow> app \<Rightarrow> bool outcome" where
  "checkbox key val inp s =
     Done (case entered inp key of Some (PBool b) \<Rightarrow> b | _ \<Rightarrow> truthy val)
          (s\<lparr>screen := screen s @ [Checkbox key (truthy val)]\<rparr>)"

definition str_cast :: "env \<Rightarrow> pyval \<Rightarrow> string" where
  "str_cast E v = (case v of PStr t \<Rightarrow> t | _ \<Rightarrow> to_str E v)"

definition text_value :: "env \<Rightarrow> pyval \<Rightarrow> pyval" where
  "text_value E v = (case v of PNone \<Rightarrow> PNone | _ \<Rightarrow> PStr (str_cast E v))"

definition text_area :: "env \<Rightarrow> string \<Rightarrow> pyval \<Rightarrow> input \<Rightarrow> app \<Rightarrow> pyval outcome" where
  "text_area E key val inp s =
     Done (case entered inp key of Some (PStr t) \<Rightarrow> PStr t | _ \<Rightarrow> text_value E val)
          (s\<lparr>screen := screen s @ [TextField key (text_value E val)]\<rparr>)"

definition option_list :: "string list \<Rightarrow> pyval list \<Rightarrow> bool" where
  "option_list options xs = list_all (\<lambda>x. x \<in> set (map PStr options)) xs"

definition default_options :: "string list \<Rightarrow> pyval \<Rightarrow> pyval list option" where
  "default_options options dflt =
     (case dflt of
        PNone \<Rightarrow> Some []
      | PList xs \<Rightarrow> if option_list options xs then Some xs else None
      | _ \<Rightarrow> if dflt \<in> set (map PStr options) then Some [dflt] else None)"

definition multiselect :: "string \<Rightarrow> string list \<Rightarrow> pyval \<Rightarrow> input \<Rightarrow> app \<Rightarrow> pyval list outcome" where
  "multiselect key options dflt inp s =
     (case default_options options dflt of
        None \<Rightarrow> Raised StreamlitAPIException s
      | Some xs \<Rightarrow>
          Done (case entered inp key of
                  Some (PList ys) \<Rightarrow> if distinct ys \<and> option_list options ys then ys else xs
                | _ \<Rightarrow> xs)
               (s\<lparr>screen := screen s @ [Multiselect key options xs]\<rparr>))"

definition button :: "string \<Rightarrow> input \<Rightarrow> app \<Rightarrow> bool outcome" where
  "button key inp s = Done (clicked inp = Some key) (s\<lparr>screen := screen s @ [Button key]\<rparr>)"

text \<open>
  The question idioms of the script, each with its \<open>get_response\<close>, its widget and its
  \<open>store_response\<close>. A choice question looks the stored value up in the options and falls
  back to the given index when \<open>index\<close> raises \<open>ValueError\<close>.
\<close>

definition choice_question ::
  "string \<Rightarrow> string \<Rightarrow> string list \<Rightarrow> string \<Rightarrow> nat \<Rightarrow> string \<Rightarrow> input \<Rightarrow> app \<Rightarrow> string outcome" where
  "choice_question category question options stock fallback key inp =
     (\<lambda>s. then_run (selectbox key options
                      (default_index options fallback
                         (get_response (user_responses s) category question (PStr stock))) inp)
            (\<lambda>choice.
          then_run (do_store category question (PStr choice)) (\<lambda>_.
          Done choice)) s)"

definition slider_question ::
  "env \<Rightarrow> string \<Rightarrow> string \<Rightarrow> int \<Rightarrow> int \<Rightarrow> string \<Rightarrow> input \<Rightarrow> app \<Rightarrow> int outcome" where
  "slider_question E category question lo hi key inp =
     (\<lambda>s. then_run (convert (py_int E (get_response (user_responses s) category question (PInt 0))))
            (\<lambda>val.
          then_run (slider key lo hi val inp) (\<lambda>level.
          then_run (do_store category question (PInt level)) (\<lambda>_.
          Done level))) s)"

definition number_question ::
  "env \<Rightarrow> string \<Rightarrow> string \<Rightarrow> int \<Rightarrow> int \<Rightarrow> string \<Rightarrow> input \<Rightarrow> app \<Rightarrow> int outcome" where
  "number_question E category question min_value stock key inp =
     (\<lambda>s. then_run (convert (py_int E (get_response (user_responses s) category question (PInt stock))))
            (\<lambda>val.
          then_run (number_input key min_value val inp) (\<lambda>n.
          then_run (do_store category question (PInt n)) (\<lambda>_.
          Done n))) s)"

definition checkbox_question ::
  "string \<Rightarrow> string \<Rightarrow> string \<Rightarrow> input \<Rightarrow> app \<Rightarrow> bool outcome" where
  "checkbox_question category question key inp =
     (\<lambda>s. then_run (checkbox key (get_response (user_responses s) category question (PBool False)) inp)
            (\<lambda>ticked.
          then_run (do_store category question (PBool ticked)) (\<lambda>_.
          Done ticked)) s)"

definition text_question ::
  "env \<Rightarrow> string \<Rightarrow> string \<Rightarrow> string \<Rightarrow> input \<Rightarrow> app \<Rightarrow> pyval outcome" where
  "text_question E category question key inp =
     (\<lambda>s. then_run (text_area E key (get_response (user_responses s) category question (PStr [])) inp)
            (\<lambda>t.
          then_run (do_store category question t) (\<lambda>_.
          Done t)) s)"

definition multiselect_question ::
  "string \<Rightarrow> string \<Rightarrow> string list \<Rightarrow> string \<Rightarrow> input \<Rightarrow> app \<Rightarrow> pyval list outcome" where
  "multiselect_question category question options key inp =
     (\<lambda>s. then_run (multiselect key options
                      (get_response (user_responses s) category question (PList [])) inp)
            (\<lambda>chosen.
          then_run (do_store category question (PList chosen)) (\<lambda>_.
          Done chosen)) s)"

definition go_next :: "app \<Rightarrow> unit outcome" where
  "go_next s = Done () (next_step s)"

definition go_prev :: "app \<Rightarrow> unit outcome" where
  "go_prev s = Done () (prev_step s)"

text \<open>The navigation buttons: a click on "Next" advances, a click on "Previous" retreats.\<close>

definition next_button :: "string \<Rightarrow> input \<Rightarrow> app \<Rightarrow> unit outcome" where
  "next_button key inp = then_run (button key inp) (\<lambda>pressed. only_if pressed go_next)"

definition prev_button :: "string \<Rightarrow> input \<Rightarrow> app \<Rightarrow> unit outcome" where
  "prev_button key inp = then_run (button key inp) (\<lambda>back. only_if back go_prev)"

definition nav_buttons :: "string \<Rightarrow> string \<Rightarrow> input \<Rightarrow> app \<Rightarrow> unit outcome" where
  "nav_buttons prev_key next_key inp =
     then_run (prev_button prev_key inp) (\<lambda>_. next_button next_key inp)"

section \<open>The six steps\<close>

text \<open>The messages the steps put on the page.\<close>

definition invoice_later_text :: string where
  "invoice_later_text = ''You'll be able to upload the invoice in a later step.''"

definition upload_prompt_text :: string where
  "upload_prompt_text = ''You mentioned you have a food delivery invoice. Please upload it below for analysis.''"

definition nothing_to_upload_text :: string where
  "nothing_to_upload_text = ''You didn't mention having a food delivery invoice. You can proceed to the next step.''"

definition pdf_unsupported_text :: string where
  "pdf_unsupported_text = ''Please upload an image file of your invoice. PDF processing is not currently supported.''"

definition analyzing_text :: string where
  "analyzing_text = ''Analyzing your food order... This may take up to 60 seconds.''"

definition analysis_complete_text :: string where
  "analysis_complete_text = ''Analysis complete!''"

definition image_failed_text :: string where
  "image_failed_text = ''Failed to process the image. Please try another image.''"

definition preparing_text :: string where
  "preparing_text = ''Preparing to calculate your overall carbon footprint...''"

definition calculating_text :: string where
  "calculating_text = ''Calculating your carbon footprint... This may take up to 60 seconds.''"

definition calculation_complete_text :: string where
  "calculation_complete_text = ''Calculation complete!''"

definition transport_options :: "string list" where
  "transport_options =
     [''Car'', ''Bus'', ''Train'', ''Bicycle'', ''Walking'', ''Motorcycle'', ''Airplane'', ''Other'']"

definition fuel_options :: "string list" where
  "fuel_options = [''Petrol/Gasoline'', ''Diesel'', ''Electric'', ''Hybrid'', ''CNG/LPG'']"

definition transport_mode_question :: "input \<Rightarrow> app \<Rightarrow> string outcome" where
  "transport_mode_question =
     choice_question ''transportation'' ''primary_mode'' transport_options ''Car'' 0 ''transport_mode''"

definition fuel_type_question :: "input \<Rightarrow> app \<Rightarrow> string outcome" where
  "fuel_type_question =
     choice_question ''transportation'' ''fuel_type'' fuel_options ''Petrol/Gasoline'' 0 ''fuel_type''"

definition distance_question :: "env \<Rightarrow> input \<Rightarrow> app \<Rightarrow> real outcome" where
  "distance_question E inp =
     (\<lambda>s. then_run (convert (py_float E
                      (get_response (user_responses s) ''transportation'' ''distance_km'' (PFloat 0))))
            (\<lambda>distance_value.
          then_run (number_input_float ''distance'' 0 distance_value inp) (\<lambda>distance.
          then_run (do_store ''transportation'' ''distance_km'' (PFloat distance)) (\<lambda>_.
          Done distance))) s)"

definition step1 :: "env \<Rightarrow> input \<Rightarrow> app \<Rightarrow> unit outcome" where
  "step1 E inp =
     then_run (init_category ''transportation'') (\<lambda>_.
     then_run (transport_mode_question inp) (\<lambda>transport_mode.
     then_run (only_if (transport_mode \<in> set [''Car'', ''Motorcycle''])
                 (then_run (fuel_type_question inp) (\<lambda>_. Done ()))) (\<lambda>_.
     then_run (distance_question E inp) (\<lambda>_.
     then_run (only_if (transport_mode \<in> set [''Bus'', ''Train''])
                 (then_run (number_question E ''transportation'' ''duration_minutes'' 0 0
                              ''duration'' inp) (\<lambda>_. Done ()))) (\<lambda>_.
     then_run (only_if (transport_mode = ''Car'')
                 (then_run (number_question E ''transportation'' ''passengers'' 1 1
                              ''passengers'' inp) (\<lambda>_. Done ()))) (\<lambda>_.
     next_button ''transport_next'' inp))))))"

definition diet_options :: "string list" where
  "diet_options =
     [''Omnivore (regular meat consumption)'', ''Flexitarian (occasional meat)'',
      ''Pescatarian (fish but no meat)'', ''Vegetarian (no meat or fish)'',
      ''Vegan (no animal products)'']"

definition lunch_source_options :: "string list" where
  "lunch_source_options =
     [''Home-cooked'', ''Restaurant'', ''Office/School Cafeteria'', ''Delivery/Takeout'', ''Other'']"

definition dinner_source_options :: "string list" where
  "dinner_source_options = [''Home-cooked'', ''Restaurant'', ''Delivery/Takeout'', ''Other'']"

definition diet_type_question :: "input \<Rightarrow> app \<Rightarrow> string outcome" where
  "diet_type_question =
     choice_question ''diet'' ''diet_type'' diet_options ''Omnivore (regular meat consumption)'' 0
       ''diet_type''"

definition lunch_source_question :: "input \<Rightarrow> app \<Rightarrow> string outcome" where
  "lunch_source_question =
     choice_question ''food'' ''lunch_source'' lunch_source_options ''Home-cooked'' 0 ''lunch_source''"

definition dinner_source_question :: "input \<Rightarrow> app \<Rightarrow> string outcome" where
  "dinner_source_question =
     choice_question ''food'' ''dinner_source'' dinner_source_options ''Home-cooked'' 0
       ''dinner_source''"

definition breakfast_section :: "env \<Rightarrow> input \<Rightarrow> app \<Rightarrow> unit outcome" where
  "breakfast_section E inp =
     then_run (checkbox_question ''food'' ''had_breakfast'' ''had_breakfast'' inp) (\<lambda>had_breakfast.
     only_if had_breakfast
       (then_run (text_question E ''food'' ''breakfast_description'' ''breakfast_desc'' inp) (\<lambda>_.
        then_run (slider_question E ''food'' ''breakfast_dairy_level'' 0 5 ''breakfast_dairy'' inp) (\<lambda>_.
        then_run (slider_question E ''food'' ''breakfast_meat_level'' 0 5 ''breakfast_meat'' inp) (\<lambda>_.
        Done ())))))"

definition meal_details ::
  "env \<Rightarrow> string \<Rightarrow> string \<Rightarrow> string \<Rightarrow> string \<Rightarrow> input \<Rightarrow> app \<Rightarrow> unit outcome" where
  "meal_details E description meat_level desc_key meat_key inp =
     then_run (text_question E ''food'' description desc_key inp) (\<lambda>_.
     then_run (slider_question E ''food'' meat_level 0 5 meat_key inp) (\<lambda>_.
     Done ()))"

definition lunch_section :: "env \<Rightarrow> input \<Rightarrow> app \<Rightarrow> unit outcome" where
  "lunch_section E inp =
     then_run (checkbox_question ''food'' ''had_lunch'' ''had_lunch'' inp) (\<lambda>had_lunch.
     only_if had_lunch
       (then_run (lunch_source_question inp) (\<lambda>lunch_source.
        if lunch_source = ''Delivery/Takeout'' then
          then_run (checkbox_question ''food'' ''has_lunch_invoice'' ''lunch_invoice'' inp)
            (\<lambda>has_invoice.
          if has_invoice then emit (Info invoice_later_text)
          else meal_details E ''lunch_description'' ''lunch_meat_level''
                 ''lunch_desc'' ''lunch_meat'' inp)
        else meal_details E ''lunch_description'' ''lunch_meat_level''
               ''lunch_desc_2'' ''lunch_meat_2'' inp)))"

definition dinner_section :: "env \<Rightarrow> input \<Rightarrow> app \<Rightarrow> unit outcome" where
  "dinner_section E inp =
     then_run (checkbox_question ''food'' ''had_dinner'' ''had_dinner'' inp) (\<lambda>had_dinner.
     only_if had_dinner
       (then_run (dinner_source_question inp) (\<lambda>dinner_source.
        if dinner_source = ''Delivery/Takeout'' then
          then_run (checkbox_question ''food'' ''has_dinner_invoice'' ''dinner_invoice'' inp)
            (\<lambda>has_dinner_invoice.
          if has_dinner_invoice
          then emit (Info invoice_later_text)
          else meal_details E ''dinner_description'' ''dinner_meat_level''
                 ''dinner_desc'' ''dinner_meat'' inp)
        else meal_details E ''dinner_description'' ''dinner_meat_level''
               ''dinner_desc_2'' ''dinner_meat_2'' inp)))"

definition step2 :: "env \<Rightarrow> input \<Rightarrow> app \<Rightarrow> unit outcome" where
  "step2 E inp =
     then_run (init_category ''food'') (\<lambda>_.
     then_run (init_category ''diet'') (\<lambda>_.
     then_run (diet_type_question inp) (\<lambda>_.
     then_run (breakfast_section E inp) (\<lambda>_.
     then_run (lunch_section E inp) (\<lambda>_.
     then_run (dinner_section E inp) (\<lambda>_.
     then_run (text_question E ''food'' ''snacks_description'' ''snacks'' inp) (\<lambda>_.
     then_run (slider_question E ''food'' ''food_waste_level'' 0 5 ''food_waste'' inp) (\<lambda>_.
     nav_buttons ''food_prev'' ''food_next'' inp))))))))"

definition home_type_options :: "string list" where
  "home_type_options = [''Apartment'', ''Small house'', ''Medium house'', ''Large house'', ''Other'']"

definition electricity_options :: "string list" where
  "electricity_options =
     [''Grid electricity'', ''Solar panels'', ''Wind power'', ''Other renewable'', ''Don't know'']"

definition laundry_temp_options :: "string list" where
  "laundry_temp_options = [''Cold'', ''Warm'', ''Hot'']"

definition home_type_question :: "input \<Rightarrow> app \<Rightarrow> string outcome" where
  "home_type_question =
     choice_question ''home'' ''home_type'' home_type_options ''Apartment'' 0 ''home_type''"

definition laundry_temp_question :: "input \<Rightarrow> app \<Rightarrow> string outcome" where
  "laundry_temp_question =
     choice_question ''water'' ''laundry_temperature'' laundry_temp_options ''Cold'' 0 ''laundry_temp''"

definition step3 :: "env \<Rightarrow> input \<Rightarrow> app \<Rightarrow> unit outcome" where
  "step3 E inp =
     then_run (init_category ''home'') (\<lambda>_.
     then_run (init_category ''energy'') (\<lambda>_.
     then_run (init_category ''water'') (\<lambda>_.
     then_run (home_type_question inp) (\<lambda>_.
     then_run (number_question E ''home'' ''household_size'' 1 1 ''household_size'' inp) (\<lambda>_.
     then_run (multiselect_question ''energy'' ''electricity_sources'' electricity_options
                 ''electricity_source'' inp) (\<lambda>electricity_source.
     then_run (only_if (PStr ''Grid electricity'' \<in> set electricity_source)
                 (then_run (text_question E ''energy'' ''electricity_provider''
                              ''electricity_provider'' inp) (\<lambda>_. Done ()))) (\<lambda>_.
     then_run (slider_question E ''energy'' ''ac_hours'' 0 24 ''ac_usage'' inp) (\<lambda>_.
     then_run (slider_question E ''energy'' ''heating_hours'' 0 24 ''heating_usage'' inp) (\<lambda>_.
     then_run (number_question E ''water'' ''shower_minutes'' 0 0 ''shower_duration'' inp) (\<lambda>_.
     then_run (checkbox_question ''water'' ''did_laundry'' ''did_laundry'' inp) (\<lambda>laundry.
     then_run (only_if laundry
                 (then_run (number_question E ''water'' ''laundry_loads'' 1 1 ''laundry_loads'' inp)
                    (\<lambda>_.
                  then_run (laundry_temp_question inp) (\<lambda>_. Done ())))) (\<lambda>_.
     then_run (checkbox_question ''water'' ''used_dishwasher'' ''used_dishwasher'' inp) (\<lambda>_.
     nav_buttons ''energy_prev'' ''energy_next'' inp)))))))))))))"

definition purchased_options :: "string list" where
  "purchased_options =
     [''Clothing'', ''Electronics'', ''Furniture'', ''Books/Media'', ''Toys'', ''Household items'',
      ''None'']"

definition items_new_options :: "string list" where
  "items_new_options = [''All new'', ''Mixture of new and second-hand'', ''All second-hand'']"

definition packaging_options :: "string list" where
  "packaging_options =
     [''Minimal/eco-friendly packaging'', ''Standard packaging'', ''Excessive packaging'']"

definition delivery_options :: "string list" where
  "delivery_options = [''Standard'', ''Express/Next day'', ''Same day'']"

definition items_new_question :: "input \<Rightarrow> app \<Rightarrow> string outcome" where
  "items_new_question =
     choice_question ''consumption'' ''items_new_or_used'' items_new_options ''All new'' 0 ''items_new''"

definition item_packaging_question :: "input \<Rightarrow> app \<Rightarrow> string outcome" where
  "item_packaging_question =
     choice_question ''consumption'' ''item_packaging'' packaging_options ''Standard packaging'' 1
       ''item_packaging''"

definition delivery_option_question :: "input \<Rightarrow> app \<Rightarrow> string outcome" where
  "delivery_option_question =
     choice_question ''consumption'' ''delivery_option'' delivery_options ''Standard'' 0
       ''delivery_option''"

definition step4 :: "env \<Rightarrow> input \<Rightarrow> app \<Rightarrow> unit outcome" where
  "step4 E inp =
     then_run (init_category ''consumption'') (\<lambda>_.
     then_run (init_category ''waste'') (\<lambda>_.
     then_run (multiselect_question ''consumption'' ''purchased_items'' purchased_options
                 ''purchased_items'' inp) (\<lambda>purchased_items.
     then_run (only_if (PStr ''None'' \<notin> set purchased_items \<and> purchased_items \<noteq> [])
                 (then_run (items_new_question inp) (\<lambda>_.
                  then_run (item_packaging_question inp) (\<lambda>_. Done ()))))
       (\<lambda>_.
     then_run (checkbox_question ''consumption'' ''ordered_online'' ''ordered_online'' inp)
       (\<lambda>online_shopping.
     then_run (only_if online_shopping
                 (then_run (delivery_option_question inp) (\<lambda>_. Done ()))) (\<lambda>_.
     then_run (slider_question E ''waste'' ''recycling_percentage'' 0 100 ''recycling'' inp) (\<lambda>_.
     then_run (checkbox_question ''waste'' ''does_compost'' ''does_compost'' inp) (\<lambda>_.
     then_run (slider_question E ''waste'' ''single_use_plastic_count'' 0 20 ''plastic_usage'' inp)
       (\<lambda>_.
     nav_buttons ''goods_prev'' ''goods_next'' inp)))))))))"

text \<open>
  \<open>encode_image\<close> reads the file and encodes it; when the file cannot be opened it reports
  the error on the page and returns \<open>None\<close>.
\<close>

definition encode_image :: "env \<Rightarrow> string \<Rightarrow> app \<Rightarrow> pyval outcome" where
  "encode_image E image_path s =
     (case files s image_path of
        Some bytes \<Rightarrow> Done (PStr (b64encode E bytes)) s
      | None \<Rightarrow>
          Done PNone (s\<lparr>screen := screen s @ [Error (''Error encoding image: '' @ str_exn E OSError)]\<rparr>))"

text \<open>
  Writing the uploaded bytes raises when the path cannot be opened; \<open>st.image\<close> raises
  when the bytes of the file do not decode as an image.
\<close>

definition write_file :: "env \<Rightarrow> string \<Rightarrow> string \<Rightarrow> app \<Rightarrow> unit outcome" where
  "write_file E path bytes s =
     (if writable E path then Done () (s\<lparr>files := (files s)(path \<mapsto> bytes)\<rparr>)
      else Raised OSError s)"

definition st_image :: "env \<Rightarrow> string \<Rightarrow> app \<Rightarrow> unit outcome" where
  "st_image E path s =
     (case files s path of
        None \<Rightarrow> Raised OSError s
      | Some bytes \<Rightarrow>
          if is_image E bytes then Done () (s\<lparr>screen := screen s @ [Image path]\<rparr>)
          else Raised UnidentifiedImageError s)"

definition run_invoice_analysis :: "env \<Rightarrow> app \<Rightarrow> unit outcome" where
  "run_invoice_analysis E =
     then_run (emit (Warning analyzing_text)) (\<lambda>_.
     then_run (encode_image E ''uploaded_invoice.png'') (\<lambda>base64_image.
     if truthy base64_image then
       then_run (\<lambda>s. case analyze_food_invoice E (str_cast E base64_image) s of
                        (invoice_analysis, s') \<Rightarrow>
                          Done invoice_analysis (s'\<lparr>food_order_analysis := invoice_analysis\<rparr>))
         (\<lambda>invoice_analysis.
       then_run (emit (Success analysis_complete_text)) (\<lambda>_.
       then_run (emit (Markdown invoice_analysis)) (\<lambda>_.
       do_store ''food'' ''invoice_analysis'' invoice_analysis)))
     else emit (Error image_failed_text)))"

definition invoice_upload :: "env \<Rightarrow> input \<Rightarrow> app \<Rightarrow> unit outcome" where
  "invoice_upload E inp =
     then_run (emit (Info upload_prompt_text))
       (\<lambda>_.
     then_run (emit (FileUploader ''invoice_upload'' [''jpg'', ''jpeg'', ''png'', ''pdf''])) (\<lambda>_.
     case uploaded inp of
       None \<Rightarrow> Done ()
     | Some uploaded_file \<Rightarrow>
         if startswith (file_type uploaded_file) ''image'' then
           then_run (write_file E ''uploaded_invoice.png'' (buffer uploaded_file)) (\<lambda>_.
           then_run (st_image E ''uploaded_invoice.png'') (\<lambda>_.
           then_run (button ''analyze_invoice'' inp) (\<lambda>analyze_button.
           only_if analyze_button (run_invoice_analysis E))))
         else emit (Error pdf_unsupported_text)))"

definition step5 :: "env \<Rightarrow> input \<Rightarrow> app \<Rightarrow> unit outcome" where
  "step5 E inp =
     then_run (\<lambda>s. Done (get_response (user_responses s) ''food'' ''has_lunch_invoice'' (PBool False),
                        get_response (user_responses s) ''food'' ''has_dinner_invoice'' (PBool False)) s)
       (\<lambda>(has_lunch_invoice, has_dinner_invoice).
     then_run (if truthy has_lunch_invoice \<or> truthy has_dinner_invoice
               then invoice_upload E inp
               else emit (Info nothing_to_upload_text))
       (\<lambda>_.
     nav_buttons ''invoice_prev'' ''invoice_next'' inp))"

text \<open>
  The results step. The handler of "Recalculate" and the guarded computation of the overall
  result are definitions of their own. \<open>analyze_with_gemma\<close> catches every exception itself,
  so the \<open>except\<close> branch around the call is never taken.
\<close>

definition recalculate :: "app \<Rightarrow> unit outcome" where
  "recalculate s = Done () (s\<lparr>final_result := PNone\<rparr>)"

definition show_invoice_analysis :: "app \<Rightarrow> unit outcome" where
  "show_invoice_analysis s =
     (if truthy (food_order_analysis s)
      then then_run (emit (Markdown (food_order_analysis s))) (\<lambda>_. emit (Markdown (PStr ''---''))) s
      else Done () s)"

definition compute_final_result :: "env \<Rightarrow> app \<Rightarrow> unit outcome" where
  "compute_final_result E s =
     (if final_result s = PNone then
        then_run (emit (Info preparing_text)) (\<lambda>_.
        then_run (emit (Warning calculating_text))
          (\<lambda>_.
        then_run (\<lambda>s. case analyze_with_gemma E (user_responses s) s of
                         (result, s') \<Rightarrow> Done () (s'\<lparr>final_result := result\<rparr>)) (\<lambda>_.
        emit (Success calculation_complete_text)))) s
      else Done () s)"

definition next_steps_text :: string where
  "next_steps_text =
     ''- Track your footprint over time to see your progress'' @
     ''- Set goals to reduce your highest impact areas'' @
     ''- Share your journey with friends and family to inspire change''"

text \<open>
  "Start Over" deletes every key of the session and reruns the script: the rerun starts
  from the initialised session, at step 1, with fresh widgets.
\<close>

definition start_over :: "env \<Rightarrow> app \<Rightarrow> unit outcome" where
  "start_over E s = step1 E no_input ((initial_session s)\<lparr>screen := []\<rparr>)"

definition step6 :: "env \<Rightarrow> input \<Rightarrow> app \<Rightarrow> unit outcome" where
  "step6 E inp =
     then_run (button ''recalculate'' inp) (\<lambda>again.
     then_run (only_if again recalculate) (\<lambda>_.
     then_run show_invoice_analysis (\<lambda>_.
     then_run (compute_final_result E) (\<lambda>_.
     then_run (\<lambda>s. emit (Markdown (final_result s)) s) (\<lambda>_.
     then_run (emit (Markdown (PStr next_steps_text))) (\<lambda>_.
     then_run (prev_button ''results_prev'' inp) (\<lambda>_.
     then_run (button ''reset'' inp) (\<lambda>reset.
     only_if reset (start_over E)))))))))"

text \<open>One run of the script: the page is drawn anew by the step the cursor points at.\<close>

definition run_script :: "env \<Rightarrow> input \<Rightarrow> app \<Rightarrow> unit outcome" where
  "run_script E inp s =
     (let s0 = s\<lparr>screen := []\<rparr> in
      if current_step s = 1 then step1 E inp s0
      else if current_step s = 2 then step2 E inp s0
      else if current_step s = 3 then step3 E inp s0
      else if current_step s = 4 then step4 E inp s0
      else if current_step s = 5 then step5 E inp s0
      else if current_step s = 6 then step6 E inp s0
      else Done () s0)"

fun run_all :: "env \<Rightarrow> input list \<Rightarrow> app \<Rightarrow> app" where
  "run_all E [] s = s"
| "run_all E (inp # inps) s = run_all E inps (state_of (run_script E inp s))"

section \<open>Concrete sessions, inputs and environments\<close>

text \<open>A fresh session at step 1, with nothing stored, written, sent or shown.\<close>

definition blank_app :: app where
  "blank_app =
     \<lparr>current_step = 1, user_responses = Map.empty, food_order_analysis = PNone,
      final_result = PNone, files = Map.empty, calls = [], screen = []\<rparr>"

text \<open>A PNG file of one grey pixel, and its base64 text.\<close>

definition tiny_png :: string where
  "tiny_png =
     [CHR 0x89, CHR 0x50, CHR 0x4E, CHR 0x47, CHR 0x0D, CHR 0x0A, CHR 0x1A, CHR 0x0A, CHR 0x00,
      CHR 0x00, CHR 0x00, CHR 0x0D, CHR 0x49, CHR 0x48, CHR 0x44, CHR 0x52, CHR 0x00, CHR 0x00,
      CHR 0x00, CHR 0x01, CHR 0x00, CHR 0x00, CHR 0x00, CHR 0x01, CHR 0x08, CHR 0x00, CHR 0x00,
      CHR 0x00, CHR 0x00, CHR 0x3A, CHR 0x7E, CHR 0x9B, CHR 0x55, CHR 0x00, CHR 0x00, CHR 0x00,
      CHR 0x0A, CHR 0x49, CHR 0x44, CHR 0x41, CHR 0x54, CHR 0x78, CHR 0x9C, CHR 0x63, CHR 0x60,
      CHR 0x00, CHR 0x00, CHR 0x00, CHR 0x02, CHR 0x00, CHR 0x01, CHR 0x48, CHR 0xAF, CHR 0xA4,
      CHR 0x71, CHR 0x00, CHR 0x00, CHR 0x00, CHR 0x00, CHR 0x49, CHR 0x45, CHR 0x4E, CHR 0x44,
      CHR 0xAE, CHR 0x42, CHR 0x60, CHR 0x82]"

definition tiny_png_base64 :: string where
  "tiny_png_base64 =
     ''iVBORw0KGgoAAAANSUhEUgAAAAEAAAABCAAAAAA6fptVAAAACklEQVR4nGNg'' @
     ''AAAAAgABSK+kcQAAAABJRU5ErkJggg==''"

text \<open>
  An environment for concrete runs: every request is answered by the given outcome; the
  library functions are given at the arguments the runs below meet, with the values Python
  returns there.
\<close>

definition empty_choice_json :: pyval where
  "empty_choice_json = PDict [(''choices'', PList [PDict []]), (''response'', PStr ''r'')]"

definition sample_dumps :: "pyval \<Rightarrow> string" where
  "sample_dumps v =
     (if v = PInt 5 then ''5''
      else if v = PStr ''hello'' then ''\"hello\"''
      else if v = PDict [(''id'', PInt 7)] then ''{'' @ [CHR 0x0A] @ ''  \"id\": 7'' @ [CHR 0x0A] @ ''}''
      else if v = empty_choice_json then
        ''{'' @ [CHR 0x0A] @ ''  \"choices\": ['' @ [CHR 0x0A] @ ''    {}'' @ [CHR 0x0A] @ ''  ],''
        @ [CHR 0x0A] @ ''  \"response\": \"r\"'' @ [CHR 0x0A] @ ''}''
      else [])"

definition sample_str_exn :: "exn \<Rightarrow> string" where
  "sample_str_exn e =
     (case e of
        RequestException message \<Rightarrow> message
      | TypeError \<Rightarrow> ''argument of type 'int' is not iterable''
      | _ \<Rightarrow> [])"

definition fixed_env :: "http_outcome \<Rightarrow> env" where
  "fixed_env outcome =
     \<lparr>api_reply = (\<lambda>n. outcome), json_dumps = sample_dumps, str_exn = sample_str_exn,
      to_str = (\<lambda>v. []), b64encode = (\<lambda>bytes. if bytes = tiny_png then tiny_png_base64 else []),
      parse_int = (\<lambda>t. None), parse_float = (\<lambda>t. None),
      is_image = (\<lambda>bytes. bytes = tiny_png), writable = (\<lambda>path. True)\<rparr>"

text \<open>
  Replies: a body that does not decode; the JSON object \<open>{"response": 42}\<close>; the bare JSON
  number 5.
\<close>

definition plain_reply :: http_outcome where
  "plain_reply = Response 200 ''report'' None"



text \<open>
  A session at step 5 with the lunch invoice flagged and an earlier invoice analysis
  cached; a click on "Analyze Invoice" with the PNG in the uploader; an uploaded PDF.
\<close>

definition invoice_ready :: app where
  "invoice_ready =
     blank_app\<lparr>current_step := 5,
       user_responses := [''food'' \<mapsto> [''has_lunch_invoice'' \<mapsto> PBool True]],
       food_order_analysis := PStr ''old''\<rparr>"

definition analyze_click :: input where
  "analyze_click =
     \<lparr>entered = Map.empty, clicked = Some ''analyze_invoice'',
      uploaded = Some \<lparr>file_type = ''image/png'', buffer = tiny_png\<rparr>\<rparr>"

definition pdf_upload :: input where
  "pdf_upload =
     \<lparr>entered = Map.empty, clicked = None,
      uploaded = Some \<lparr>file_type = ''application/pdf'', buffer = ''%PDF''\<rparr>\<rparr>"

text \<open>A session whose stored transport mode is "Bicycle", and one whose stored mode is no option.\<close>

definition cyclist :: app where
  "cyclist =
     blank_app\<lparr>user_responses := [''transportation'' \<mapsto> [''primary_mode'' \<mapsto> PStr ''Bicycle'']]\<rparr>"

definition stale_mode :: app where
  "stale_mode =
     blank_app\<lparr>user_responses := [''transportation'' \<mapsto> [''primary_mode'' \<mapsto> PStr ''Hovercraft'']]\<rparr>"





definition is_flag :: "pyval option \<Rightarrow> bool" where
  "is_flag x = (case x of None \<Rightarrow> True | Some (PBool b) \<Rightarrow> True | Some v \<Rightarrow> False)"

section \<open>Navigation\<close>

lemma navigate_keeps_positive: "1 \<le> current_step s \<Longrightarrow> 1 \<le> current_step (navigate n s)"
  by (cases n) (simp_all add: next_step_def prev_step_def)

lemma navigate_all_keeps_positive:
  "1 \<le> current_step s \<Longrightarrow> 1 \<le> current_step (navigate_all ns s)"
  by (induction ns arbitrary: s) (simp_all add: navigate_keeps_positive)

text \<open>
  Claim C3. \<open>prev_step\<close> takes one from the cursor when it is above 1 and changes nothing
  when it is 1, and after any sequence of \<open>prev_step\<close> and \<open>next_step\<close> calls from the
  initial session the cursor is at least 1.
\<close>

theorem retreat_never_below_one:
  "prev_step s = (if current_step s > 1 then s\<lparr>current_step := current_step s - 1\<rparr> else s)
   \<and> 1 \<le> current_step (navigate_all ns (initial_session s))"
  by (simp add: prev_step_def navigate_all_keeps_positive initial_session_def)

section \<open>Running the steps\<close>

lemma then_run_Done: "then_run (Done v) f = f v"
  by (rule ext) (simp add: then_run_def)

lemma then_run_assoc: "then_run (then_run m f) g = then_run m (\<lambda>v. then_run (f v) g)"
  by (rule ext) (simp add: then_run_def split: outcome.splits)

lemma then_run_if: "then_run (if c then m else n) f = (if c then then_run m f else then_run n f)"
  by simp

lemma then_run_only_if: "then_run (only_if c m) f = (if c then then_run m f else f ())"
  by (rule ext) (simp add: then_run_def only_if_def)

lemma then_run_emit: "then_run (emit w) f s = f () (s\<lparr>screen := screen s @ [w]\<rparr>)"
  by (simp add: then_run_def emit_def)

lemma then_run_button:
  "then_run (button k inp) f s = f (clicked inp = Some k) (s\<lparr>screen := screen s @ [Button k]\<rparr>)"
  by (simp add: then_run_def button_def)

lemma then_run_do_store:
  "then_run (do_store c q v) f s = f () (s\<lparr>user_responses := store_response c q v (user_responses s)\<rparr>)"
  by (simp add: then_run_def do_store_def)

lemma then_run_go_next: "then_run go_next f s = f () (next_step s)"
  by (simp add: then_run_def go_next_def)

lemma then_run_go_prev: "then_run go_prev f s = f () (prev_step s)"
  by (simp add: then_run_def go_prev_def)

lemma then_run_state: "then_run (\<lambda>s. Done (v s) (g s)) f s = f (v s) (g s)"
  by (simp add: then_run_def)

lemmas run_simps = then_run_Done then_run_assoc then_run_if then_run_only_if then_run_emit
  then_run_button then_run_do_store then_run_go_next then_run_go_prev then_run_state


lemmas step_defs = nav_buttons_def next_button_def prev_button_def recalculate_def show_invoice_analysis_def compute_final_result_def
  analyze_with_gemma_def analyze_food_invoice_def then_run_def emit_def only_if_def button_def
  go_next_def go_prev_def do_store_def

lemma get_response_stored:
  "get_response rs c q d = (case stored rs c q of None \<Rightarrow> d | Some v \<Rightarrow> v)"
  by (simp add: get_response_def stored_def split: option.splits)

text \<open>
  Claim C9. The handler of "Recalculate" sets \<open>final_result\<close> to \<open>None\<close> and nothing else.
  The run of step 6 in which the button is clicked leaves the answers, the cached invoice
  analysis and the cursor as they were, sends exactly one new full-analysis request and
  caches its reply as the new overall result.
\<close>

theorem recalculate_clears_only_final_result:
  assumes "current_step s = 6" and "clicked inp = Some ''recalculate''"
  shows "recalculate s = Done () (s\<lparr>final_result := PNone\<rparr>)
    \<and> completed (run_script E inp s)
    \<and> user_responses (state_of (run_script E inp s)) = user_responses s
    \<and> food_order_analysis (state_of (run_script E inp s)) = food_order_analysis s
    \<and> current_step (state_of (run_script E inp s)) = 6
    \<and> calls (state_of (run_script E inp s)) = calls s @ [FullAnalysis (user_responses s)]
    \<and> final_result (state_of (run_script E inp s)) = read_reply E (api_reply E (length (calls s)))"
  using assms by (simp add: run_script_def Let_def step6_def step_defs)

theorem recalculate_clears_only_final_result_witness:
  "current_step (blank_app\<lparr>current_step := 6, final_result := PStr ''old''\<rparr>) = 6
   \<and> clicked (no_input\<lparr>clicked := Some ''recalculate''\<rparr>) = Some ''recalculate''
   \<and> final_result (state_of (run_script (fixed_env plain_reply) (no_input\<lparr>clicked := Some ''recalculate''\<rparr>)
         (blank_app\<lparr>current_step := 6, final_result := PStr ''old''\<rparr>))) = PStr ''report''"
  using recalculate_clears_only_final_result [of "blank_app\<lparr>current_step := 6, final_result := PStr ''old''\<rparr>"
     "no_input\<lparr>clicked := Some ''recalculate''\<rparr>" "fixed_env plain_reply"]
  by (simp add: blank_app_def no_input_def fixed_env_def plain_reply_def read_reply_def)

section \<open>The invoice step\<close>

lemmas step5_defs = nav_buttons_def next_button_def prev_button_def step5_def invoice_upload_def
  run_invoice_analysis_def analyze_food_invoice_def str_cast_def prev_step_def next_step_def
  only_if_def go_next_def go_prev_def emit_def

lemma then_run_write_file:
  "then_run (write_file E p b) f s =
     (if writable E p then f () (s\<lparr>files := (files s)(p \<mapsto> b)\<rparr>) else Raised OSError s)"
  by (simp add: then_run_def write_file_def)

lemma then_run_st_image:
  "then_run (st_image E p) f s =
     (case files s p of
        None \<Rightarrow> Raised OSError s
      | Some bytes \<Rightarrow>
          if is_image E bytes then f () (s\<lparr>screen := screen s @ [Image p]\<rparr>)
          else Raised UnidentifiedImageError s)"
  by (simp add: then_run_def st_image_def split: option.splits)

lemma then_run_case_option:
  "then_run (case x of None \<Rightarrow> m | Some y \<Rightarrow> n y) f =
     (case x of None \<Rightarrow> then_run m f | Some y \<Rightarrow> then_run (n y) f)"
  by (simp split: option.splits)

lemma then_run_encode_image:
  "then_run (encode_image E p) f s =
     (case files s p of
        Some bytes \<Rightarrow> f (PStr (b64encode E bytes)) s
      | None \<Rightarrow> f PNone (s\<lparr>screen := screen s @ [Error (''Error encoding image: '' @ str_exn E OSError)]\<rparr>))"
  by (simp add: then_run_def encode_image_def split: option.splits)

lemmas step5_simps = step5_defs run_simps then_run_write_file then_run_st_image
  then_run_case_option then_run_encode_image

lemma flag_truthy:
  "is_flag (stored rs c q) \<Longrightarrow>
   truthy (get_response rs c q (PBool False)) \<longleftrightarrow> stored rs c q = Some (PBool True)"
  by (auto simp: get_response_stored is_flag_def split: option.splits pyval.splits)

text \<open>
  The page of step 5: the prompt and the uploader or the notice; for an uploaded image
  that is written and decodes, the image, the button and what a click on it shows; for
  another file the error; then the navigation buttons, unless the run stopped at the image.
\<close>

lemma step5_screen:
  "screen (state_of (step5 E inp (s\<lparr>screen := []\<rparr>))) =
     (if truthy (get_response (user_responses s) ''food'' ''has_lunch_invoice'' (PBool False))
         \<or> truthy (get_response (user_responses s) ''food'' ''has_dinner_invoice'' (PBool False))
      then [Info upload_prompt_text,
            FileUploader ''invoice_upload'' [''jpg'', ''jpeg'', ''png'', ''pdf'']]
           @ (case uploaded inp of
                None \<Rightarrow> [Button ''invoice_prev'', Button ''invoice_next'']
              | Some f \<Rightarrow>
                  if startswith (file_type f) ''image'' then
                    if writable E ''uploaded_invoice.png'' \<and> is_image E (buffer f) then
                      [Image ''uploaded_invoice.png'', Button ''analyze_invoice'']
                      @ (if clicked inp = Some ''analyze_invoice'' then
                           Warning analyzing_text
                           # (if b64encode E (buffer f) \<noteq> [] then
                                [Success analysis_complete_text,
                                 Markdown (read_reply E (api_reply E (length (calls s))))]
                              else [Error image_failed_text])
                         else [])
                      @ [Button ''invoice_prev'', Button ''invoice_next'']
                    else []
                  else [Error pdf_unsupported_text, Button ''invoice_prev'', Button ''invoice_next''])
      else [Info nothing_to_upload_text, Button ''invoice_prev'', Button ''invoice_next''])"
  by (simp add: step5_simps split: option.splits)

lemma step5_without_image:
  assumes "uploaded inp = None \<or> \<not> startswith (file_type (the (uploaded inp))) ''image''"
  shows "completed (step5 E inp s)"
  using assms by (auto simp: step5_simps split: option.splits)

lemma step5_without_analysis:
  assumes "clicked inp \<noteq> Some ''analyze_invoice'' \<or> uploaded inp = None
           \<or> \<not> startswith (file_type (the (uploaded inp))) ''image''"
  shows "calls (state_of (step5 E inp s)) = calls s
    \<and> food_order_analysis (state_of (step5 E inp s)) = food_order_analysis s
    \<and> final_result (state_of (step5 E inp s)) = final_result s
    \<and> user_responses (state_of (step5 E inp s)) = user_responses s"
  using assms by (auto simp: step5_simps split: option.splits)

lemma step5_with_analysis:
  assumes "truthy (get_response (user_responses s) ''food'' ''has_lunch_invoice'' (PBool False))
         \<or> truthy (get_response (user_responses s) ''food'' ''has_dinner_invoice'' (PBool False))"
    and "uploaded inp = Some f" and "startswith (file_type f) ''image''"
    and "writable E ''uploaded_invoice.png''" and "is_image E (buffer f)"
    and "clicked inp = Some ''analyze_invoice''" and "b64encode E (buffer f) \<noteq> []"
  shows "completed (step5 E inp s)
    \<and> calls (state_of (step5 E inp s)) = calls s @ [InvoiceAnalysis (b64encode E (buffer f))]
    \<and> food_order_analysis (state_of (step5 E inp s)) = read_reply E (api_reply E (length (calls s)))
    \<and> stored (user_responses (state_of (step5 E inp s))) ''food'' ''invoice_analysis''
        = Some (read_reply E (api_reply E (length (calls s))))
    \<and> final_result (state_of (step5 E inp s)) = final_result s"
  using assms by (auto simp: step5_simps stored_def store_response_def Let_def split: option.splits)

lemma run_script_at_5:
  "current_step s = 5 \<Longrightarrow> run_script E inp s = step5 E inp (s\<lparr>screen := []\<rparr>)"
  by (simp add: run_script_def)

lemma run_script_at_6:
  "current_step s = 6 \<Longrightarrow> run_script E inp s = step6 E inp (s\<lparr>screen := []\<rparr>)"
  by (simp add: run_script_def)

text \<open>
  Claim C6. At step 5, with each invoice flag absent or a boolean, the upload control is
  on the page exactly when has_lunch_invoice or has_dinner_invoice is stored as true under
  food, and the nothing-to-upload notice exactly when neither is.
\<close>

theorem invoice_step_offers_upload_iff_flagged:
  assumes "current_step s = 5"
    and "is_flag (stored (user_responses s) ''food'' ''has_lunch_invoice'')"
    and "is_flag (stored (user_responses s) ''food'' ''has_dinner_invoice'')"
  shows "(FileUploader ''invoice_upload'' [''jpg'', ''jpeg'', ''png'', ''pdf'']
            \<in> set (screen (state_of (run_script E inp s)))
          \<longleftrightarrow> stored (user_responses s) ''food'' ''has_lunch_invoice'' = Some (PBool True)
              \<or> stored (user_responses s) ''food'' ''has_dinner_invoice'' = Some (PBool True))
    \<and> (Info nothing_to_upload_text \<in> set (screen (state_of (run_script E inp s)))
          \<longleftrightarrow> \<not> (stored (user_responses s) ''food'' ''has_lunch_invoice'' = Some (PBool True)
              \<or> stored (user_responses s) ''food'' ''has_dinner_invoice'' = Some (PBool True)))"
proof -
  have differ: "upload_prompt_text \<noteq> nothing_to_upload_text"
    by (simp add: upload_prompt_text_def nothing_to_upload_text_def)
  show ?thesis
    using differ flag_truthy [OF assms(2)] flag_truthy [OF assms(3)]
    by (auto simp: run_script_at_5 [OF assms(1)] step5_screen split: option.splits)
qed

theorem invoice_step_offers_upload_iff_flagged_witness:
  "current_step invoice_ready = 5
   \<and> is_flag (stored (user_responses invoice_ready) ''food'' ''has_lunch_invoice'')
   \<and> is_flag (stored (user_responses invoice_ready) ''food'' ''has_dinner_invoice'')
   \<and> stored (user_responses invoice_ready) ''food'' ''has_dinner_invoice'' = None
   \<and> FileUploader ''invoice_upload'' [''jpg'', ''jpeg'', ''png'', ''pdf'']
        \<in> set (screen (state_of (run_script (fixed_env plain_reply) no_input invoice_ready)))
   \<and> Info nothing_to_upload_text
        \<notin> set (screen (state_of (run_script (fixed_env plain_reply) no_input invoice_ready)))"
  using invoice_step_offers_upload_iff_flagged [of invoice_ready "fixed_env plain_reply" no_input]
  by (simp add: invoice_ready_def blank_app_def stored_def is_flag_def)

text \<open>
  Claim C10. The uploader of step 5 lists pdf among its types, yet an uploaded file whose
  type does not start with "image" only gets the error message: no request is sent, and
  the cached invoice analysis and the answers stay as they were.
\<close>

theorem pdf_upload_is_rejected:
  assumes "current_step s = 5"
    and "truthy (get_response (user_responses s) ''food'' ''has_lunch_invoice'' (PBool False))
         \<or> truthy (get_response (user_responses s) ''food'' ''has_dinner_invoice'' (PBool False))"
    and "uploaded inp = Some f" and "\<not> startswith (file_type f) ''image''"
  shows "completed (run_script E inp s)
    \<and> FileUploader ''invoice_upload'' [''jpg'', ''jpeg'', ''png'', ''pdf'']
         \<in> set (screen (state_of (run_script E inp s)))
    \<and> Error pdf_unsupported_text \<in> set (screen (state_of (run_script E inp s)))
    \<and> calls (state_of (run_script E inp s)) = calls s
    \<and> food_order_analysis (state_of (run_script E inp s)) = food_order_analysis s
    \<and> user_responses (state_of (run_script E inp s)) = user_responses s"
proof -
  have "calls (state_of (step5 E inp (s\<lparr>screen := []\<rparr>))) = calls s
    \<and> food_order_analysis (state_of (step5 E inp (s\<lparr>screen := []\<rparr>))) = food_order_analysis s
    \<and> user_responses (state_of (step5 E inp (s\<lparr>screen := []\<rparr>))) = user_responses s"
    using step5_without_analysis [of inp E "s\<lparr>screen := []\<rparr>"] assms(3,4) by simp
  then show ?thesis
    using assms(2,3,4)
    by (simp add: run_script_at_5 [OF assms(1)] step5_without_image step5_screen)
qed

theorem pdf_upload_is_rejected_witness:
  "current_step invoice_ready = 5
   \<and> truthy (get_response (user_responses invoice_ready) ''food'' ''has_lunch_invoice'' (PBool False))
   \<and> uploaded pdf_upload = Some \<lparr>file_type = ''application/pdf'', buffer = ''%PDF''\<rparr>
   \<and> \<not> startswith ''application/pdf'' ''image''
   \<and> Error pdf_unsupported_text
        \<in> set (screen (state_of (run_script (fixed_env plain_reply) pdf_upload invoice_ready)))
   \<and> calls (state_of (run_script (fixed_env plain_reply) pdf_upload invoice_ready)) = []
   \<and> food_order_analysis (state_of (run_script (fixed_env plain_reply) pdf_upload invoice_ready))
        = PStr ''old''"
  using pdf_upload_is_rejected [of invoice_ready pdf_upload
      "\<lparr>file_type = ''application/pdf'', buffer = ''%PDF''\<rparr>" "fixed_env plain_reply"]
  by (simp add: invoice_ready_def blank_app_def pdf_upload_def get_response_def startswith_def)

section \<open>Reading the reply of the model endpoint\<close>



lemma key_present: "map_of kvs k = Some v \<Longrightarrow> k \<in> fst ` set kvs"
  by (metis map_of_eq_None_iff option.distinct(1))

lemma key_absent: "map_of kvs k = None \<Longrightarrow> k \<notin> fst ` set kvs"
  by (simp add: map_of_eq_None_iff)














section \<open>Stored answers\<close>

lemma stored_store:
  "stored (store_response c q v rs) c' q' = (if c' = c \<and> q' = q then Some v else stored rs c' q')"
  by (auto simp: stored_def store_response_def Let_def split: option.splits)

lemma get_store:
  "get_response (store_response c q v rs) c' q' d =
     (if c' = c \<and> q' = q then v else get_response rs c' q' d)"
  by (simp add: get_response_stored stored_store)

lemma stored_ensure: "stored (ensure_category c rs) c' q' = stored rs c' q'"
  by (simp add: stored_def ensure_category_def)

lemma get_ensure: "get_response (ensure_category c rs) c' q' d = get_response rs c' q' d"
  by (simp add: get_response_stored stored_ensure)

lemma then_run_init_category:
  "then_run (init_category c) f s =
     f () (s\<lparr>user_responses := ensure_category c (user_responses s)\<rparr>)"
  by (simp add: then_run_def init_category_def)

lemma run_script_at_1:
  "current_step s = 1 \<Longrightarrow> run_script E inp s = step1 E inp (s\<lparr>screen := []\<rparr>)"
  by (simp add: run_script_def)


section \<open>Choice questions and the transport step\<close>

lemma index_of_option: "index_of options (PStr x) = Some i \<Longrightarrow> options ! i = x \<and> i < length options"
  by (induction options arbitrary: i) (auto split: if_splits)

lemma index_of_member: "x \<in> set options \<Longrightarrow> \<exists>i. index_of options (PStr x) = Some i"
  by (induction options) auto






lemma choice_question_kept:
  assumes "stored (user_responses s) c q = Some (PStr x)" and "index_of options (PStr x) = Some i"
    and "entered inp key = None"
  shows "choice_question c q options stock fallback key inp s =
     Done (options ! i)
       (s\<lparr>user_responses := store_response c q (PStr (options ! i)) (user_responses s),
          screen := screen s @ [Choice key options i]\<rparr>)"
  using assms
  by (simp add: choice_question_def selectbox_def then_run_def do_store_def default_index_def
      get_response_stored)

lemma then_run_at: "m s = Done v t \<Longrightarrow> then_run m f s = f v t"
  by (simp add: then_run_def)

lemma then_run_raised: "m s = Raised e t \<Longrightarrow> then_run m f s = Raised e t"
  by (simp add: then_run_def)

lemma distance_question_cases:
  "(\<exists>e. distance_question E inp s = Raised e s)
   \<or> (\<exists>d d0. distance_question E inp s =
         Done d (s\<lparr>user_responses := store_response ''transportation'' ''distance_km'' (PFloat d)
                      (user_responses s),
                   screen := screen s @ [NumberInput ''distance'' (PFloat d0)]\<rparr>))"
proof (cases "py_float E (get_response (user_responses s) ''transportation'' ''distance_km'' (PFloat 0))")
  case (Inl e)
  then show ?thesis
    by (simp add: distance_question_def then_run_def convert_def)
next
  case (Inr r)
  show ?thesis
  proof (cases "r < 0 \<or> js_max_float < r")
    case True
    then show ?thesis
      using Inr by (auto simp: distance_question_def then_run_def convert_def number_input_float_def)
  next
    case False
    let ?d = "case entered inp ''distance'' of
                Some (PFloat x) \<Rightarrow> if 0 \<le> x \<and> x \<le> js_max_float then x else r
              | _ \<Rightarrow> r"
    have "distance_question E inp s =
         Done ?d (s\<lparr>user_responses := store_response ''transportation'' ''distance_km'' (PFloat ?d)
                      (user_responses s),
                   screen := screen s @ [NumberInput ''distance'' (PFloat r)]\<rparr>)"
      using Inr False
      by (simp add: distance_question_def then_run_def convert_def number_input_float_def do_store_def)
    then show ?thesis by blast
  qed
qed




text \<open>
  Claim C7. With "Bicycle" stored as the transport mode, and the user not picking another
  mode, a run of step 1 shows the mode question with Bicycle selected; the fuel type, the
  duration and the passengers questions are not on the page, and what the answers hold
  under fuel_type, duration_minutes and passengers is what they held before the run. This
  is so whatever else the user enters or clicks, and also when the run stops at the
  distance question.
\<close>

theorem bicycle_skips_vehicle_questions:
  assumes "current_step s = 1"
    and "stored (user_responses s) ''transportation'' ''primary_mode'' = Some (PStr ''Bicycle'')"
    and "entered inp ''transport_mode'' = None"
  shows "Choice ''transport_mode'' transport_options 3 \<in> set (screen (state_of (run_script E inp s)))
    \<and> Choice ''fuel_type'' options i \<notin> set (screen (state_of (run_script E inp s)))
    \<and> NumberInput ''duration'' minutes \<notin> set (screen (state_of (run_script E inp s)))
    \<and> NumberInput ''passengers'' people \<notin> set (screen (state_of (run_script E inp s)))
    \<and> stored (user_responses (state_of (run_script E inp s))) ''transportation'' ''fuel_type''
        = stored (user_responses s) ''transportation'' ''fuel_type''
    \<and> stored (user_responses (state_of (run_script E inp s))) ''transportation'' ''duration_minutes''
        = stored (user_responses s) ''transportation'' ''duration_minutes''
    \<and> stored (user_responses (state_of (run_script E inp s))) ''transportation'' ''passengers''
        = stored (user_responses s) ''transportation'' ''passengers''"
proof -
  define s0 where "s0 = s\<lparr>screen := [], user_responses := ensure_category ''transportation'' (user_responses s)\<rparr>"
  define s1 where "s1 = s0\<lparr>user_responses := store_response ''transportation'' ''primary_mode''
                 (PStr (transport_options ! 3)) (user_responses s0),
               screen := screen s0 @ [Choice ''transport_mode'' transport_options 3]\<rparr>"
  have idx: "index_of transport_options (PStr ''Bicycle'') = Some 3"
    by (simp add: transport_options_def)
  have bike: "transport_options ! 3 = ''Bicycle''"
    by (simp add: transport_options_def)
  have init: "\<And>f. then_run (init_category ''transportation'') f (s\<lparr>screen := []\<rparr>) = f () s0"
    by (simp add: then_run_init_category s0_def)
  have "transport_mode_question inp s0 = Done (transport_options ! 3) s1"
    unfolding transport_mode_question_def s1_def
    by (rule choice_question_kept [OF _ idx assms(3)]) (simp add: s0_def stored_ensure assms(2))
  then have mode: "\<And>f. then_run (transport_mode_question inp) f s0 = f ''Bicycle'' s1"
    by (simp add: then_run_def bike)
  have run: "run_script E inp s =
      then_run (distance_question E inp) (\<lambda>_. next_button ''transport_next'' inp) s1"
    by (simp add: run_script_at_1 [OF assms(1)] step1_def init mode then_run_only_if)
  have s1: "screen s1 = [Choice ''transport_mode'' transport_options 3]"
    "stored (user_responses s1) ''transportation'' ''fuel_type''
       = stored (user_responses s) ''transportation'' ''fuel_type''"
    "stored (user_responses s1) ''transportation'' ''duration_minutes''
       = stored (user_responses s) ''transportation'' ''duration_minutes''"
    "stored (user_responses s1) ''transportation'' ''passengers''
       = stored (user_responses s) ''transportation'' ''passengers''"
    by (simp_all add: s1_def s0_def stored_store stored_ensure)
  consider e where "distance_question E inp s1 = Raised e s1"
    | d d0 where "distance_question E inp s1 =
         Done d (s1\<lparr>user_responses := store_response ''transportation'' ''distance_km'' (PFloat d)
                      (user_responses s1),
                   screen := screen s1 @ [NumberInput ''distance'' (PFloat d0)]\<rparr>)"
    using distance_question_cases [of E inp s1] by blast
  then show ?thesis
  proof cases
    case 1
    then have "state_of (run_script E inp s) = s1"
      by (simp add: run then_run_def)
    then show ?thesis
      by (simp add: s1)
  next
    case 2
    then have "state_of (run_script E inp s) =
        (if clicked inp = Some ''transport_next'' then next_step else id)
          (s1\<lparr>user_responses := store_response ''transportation'' ''distance_km'' (PFloat d)
                      (user_responses s1),
                screen := screen s1 @ [NumberInput ''distance'' (PFloat d0), Button ''transport_next'']\<rparr>)"
      by (simp add: run then_run_def next_button_def button_def only_if_def go_next_def)
    then show ?thesis
      by (simp add: s1 next_step_def stored_store)
  qed
qed

theorem bicycle_skips_vehicle_questions_witness:
  "current_step cyclist = 1
   \<and> stored (user_responses cyclist) ''transportation'' ''primary_mode'' = Some (PStr ''Bicycle'')
   \<and> entered no_input ''transport_mode'' = None
   \<and> screen (state_of (run_script (fixed_env plain_reply) no_input cyclist))
       = [Choice ''transport_mode'' transport_options 3, NumberInput ''distance'' (PFloat 0),
          Button ''transport_next'']
   \<and> stored (user_responses (state_of (run_script (fixed_env plain_reply) no_input cyclist)))
        ''transportation'' ''fuel_type'' = None"
proof -
  have shown: "screen (state_of (run_script (fixed_env plain_reply) no_input cyclist))
       = [Choice ''transport_mode'' transport_options 3, NumberInput ''distance'' (PFloat 0),
          Button ''transport_next'']"
    by (simp add: run_script_at_1 cyclist_def blank_app_def step1_def transport_mode_question_def
        choice_question_def selectbox_def default_index_def distance_question_def
        number_input_float_def convert_def js_max_float_def next_button_def no_input_def
        get_response_def ensure_category_def store_response_def Let_def transport_options_def
        then_run_def do_store_def button_def only_if_def init_category_def)
  show ?thesis
    using bicycle_skips_vehicle_questions [of cyclist no_input "fixed_env plain_reply"] shown
    by (simp add: cyclist_def blank_app_def no_input_def stored_def)
qed

end
